theory Spec2Isabelle
  imports Main
begin

section \<open>The Linux registration shim of flutter\_local\_db\<close>

text \<open>
  The file \<^verbatim>\<open>linux/flutter_local_db_plugin.cc\<close> declares one GObject type,
  \<^verbatim>\<open>FlutterLocalDbPlugin\<close>, whose instance structure holds the parent instance and
  nothing else, two empty initialisers and an empty registration function. The functions
  are embedded as state transformers over the state of the process that hosts the plugin;
  a function that could stop with an error returns a value of \<open>error + state\<close>.
\<close>

subsection \<open>Pointers, type identifiers and errors\<close>

text \<open>A pointer is an address; \<open>NULL\<close> is address 0.\<close>

type_synonym pointer = nat

definition NULL :: pointer where
  "NULL = 0"

text \<open>
  A \<^verbatim>\<open>GType\<close> is an unsigned number, and \<^verbatim>\<open>G_TYPE_INVALID\<close>, the null type, is 0.
\<close>

type_synonym GType = nat

definition G_TYPE_INVALID :: GType where
  "G_TYPE_INVALID = 0"

text \<open>
  The ways a C entry point of a GLib program can fail to return normally: a critical
  message from a failed precondition check, or a crash. No function of the file
  produces either; the type is the error side of the results.
\<close>

datatype error = Critical string | Crash

subsection \<open>The instance structure\<close>

text \<open>
  \<^verbatim>\<open>struct _FlutterLocalDbPlugin { GObject parent_instance; };\<close>
  The layout of \<^verbatim>\<open>GObject\<close> belongs to GLib: it is the type parameter \<open>'g\<close>.
\<close>

record 'g FlutterLocalDbPlugin =
  parent_instance :: 'g

subsection \<open>The state of the hosting process\<close>

text \<open>
  What the functions of the file could read or write:
  \<^item> the static variable of the type hook and the type nodes the object system holds;
  \<^item> the plugin instances on the heap, by address;
  \<^item> the registrar objects, by address, each with the calls made on it so far (what a
    mock registrar records);
  \<^item> the message and event channels of the process, by name, each with its handler.
  The calls and the handlers belong to the host framework: type parameters \<open>'c\<close> and
  \<open>'h\<close>. Theorems are stated over the record scheme, so that they cover any further
  state of the process too.
\<close>

record type_node =
  node_name :: string
  node_parent :: GType

record ('g, 'c, 'h) process =
  static_g_define_type_id :: GType
  type_nodes :: "(GType \<times> type_node) list"
  instances :: "(pointer \<times> 'g FlutterLocalDbPlugin) list"
  registrars :: "pointer \<rightharpoonup> 'c list"
  channels :: "string \<rightharpoonup> 'h"

text \<open>
  A call returns normally in a state (or with a value) that satisfies \<open>Q\<close>; an error
  satisfies nothing.
\<close>

definition returns :: "error + 'a \<Rightarrow> ('a \<Rightarrow> bool) \<Rightarrow> bool" where
  "returns res Q = (case res of Inl e \<Rightarrow> False | Inr x \<Rightarrow> Q x)"

subsection \<open>The functions of the file\<close>

text \<open>
  \<^verbatim>\<open>static void flutter_local_db_plugin_class_init(FlutterLocalDbPluginClass* klass) { }\<close>
\<close>

definition flutter_local_db_plugin_class_init ::
  "pointer \<Rightarrow> ('g, 'c, 'h, 'z) process_scheme \<Rightarrow> error + ('g, 'c, 'h, 'z) process_scheme" where
  "flutter_local_db_plugin_class_init klass w = Inr w"

text \<open>
  \<^verbatim>\<open>static void flutter_local_db_plugin_init(FlutterLocalDbPlugin* self) { }\<close>
\<close>

definition flutter_local_db_plugin_init ::
  "pointer \<Rightarrow> ('g, 'c, 'h, 'z) process_scheme \<Rightarrow> error + ('g, 'c, 'h, 'z) process_scheme" where
  "flutter_local_db_plugin_init self w = Inr w"

text \<open>
  \<^verbatim>\<open>void flutter_local_db_plugin_register_with_registrar(FlPluginRegistrar* registrar) {
    // This plugin is FFI-based, so we don't need to register method channels
  }\<close>
\<close>

definition flutter_local_db_plugin_register_with_registrar ::
  "pointer \<Rightarrow> ('g, 'c, 'h, 'z) process_scheme \<Rightarrow> error + ('g, 'c, 'h, 'z) process_scheme" where
  "flutter_local_db_plugin_register_with_registrar registrar w = Inr w"

text \<open>The host calling the registration function \<open>n\<close> times in a row, stopping at an error.\<close>

fun register_times ::
  "nat \<Rightarrow> pointer \<Rightarrow> ('g, 'c, 'h, 'z) process_scheme \<Rightarrow> error + ('g, 'c, 'h, 'z) process_scheme" where
  "register_times 0 registrar w = Inr w"
| "register_times (Suc n) registrar w =
     (case flutter_local_db_plugin_register_with_registrar registrar w of
        Inl e \<Rightarrow> Inl e
      | Inr w' \<Rightarrow> register_times n registrar w')"

subsection \<open>The registration protocol of the host\<close>

text \<open>
  The registration state is not memory of the plugin: the function of the file writes
  nothing. It is the state of the plugin loader of the host, which makes the call.
\<close>

datatype registration = Unregistered | Registered

text \<open>
  Modelled from the spec: the plugin loader of the host framework, which holds the
  registration state and calls the registration function, is missing. The spec gives it
  two states, unregistered and registered, and has it call the function exactly once per
  process, at startup. A step of the loader on a registrar handle: in state unregistered
  it calls the registration function of the file and, when the call returns, is in state
  registered (an error of the call is the result of the step); in state registered it
  makes no call, and there is no step.
\<close>

fun registration_step ::
  "pointer \<Rightarrow> registration \<times> ('g, 'c, 'h, 'z) process_scheme \<Rightarrow>
   (error + registration \<times> ('g, 'c, 'h, 'z) process_scheme) option" where
  "registration_step registrar (Unregistered, w) =
     Some (case flutter_local_db_plugin_register_with_registrar registrar w of
             Inl e \<Rightarrow> Inl e
           | Inr w' \<Rightarrow> Inr (Registered, w'))"
| "registration_step registrar (Registered, w) = None"

subsection \<open>The type hook and construction\<close>

text \<open>
  \<^verbatim>\<open>G_DEFINE_TYPE(FlutterLocalDbPlugin, flutter_local_db_plugin, g_object_get_type())\<close>
  The file gives the macro the type name, the function prefix and the parent type. The
  macro, the base type and the type registry belong to the host object system (GLib),
  which is not in the repository.
\<close>

text \<open>
  Modelled from the spec: \<^verbatim>\<open>g_object_get_type\<close>, the type of the mandatory base-type
  header, is missing. It is a fixed identifier of the host object system, the
  fundamental type 20 shifted by two bits.
\<close>

definition g_object_get_type :: GType where
  "g_object_get_type = 80"

text \<open>
  Modelled from the spec: the allocation of type identifiers by the registry is missing.
  The spec has the identifier opaque and non-null: the registry hands out a number above
  the base type and above every identifier in use.
\<close>

definition fresh_type_id :: "(GType \<times> type_node) list \<Rightarrow> GType" where
  "fresh_type_id nodes = Suc (Max (set (g_object_get_type # map fst nodes)))"

text \<open>
  Modelled from the spec: \<^verbatim>\<open>g_type_register_static_simple\<close>, which the expansion of
  the macro calls, is missing. It enters a node with the name and the parent under a
  fresh identifier and returns the identifier. A registration that the registry refuses
  is not modelled.
\<close>

definition g_type_register_static_simple ::
  "GType \<Rightarrow> string \<Rightarrow> ('g, 'c, 'h, 'z) process_scheme \<Rightarrow> GType \<times> ('g, 'c, 'h, 'z) process_scheme" where
  "g_type_register_static_simple parent name w =
     (let t = fresh_type_id (type_nodes w)
      in (t, w\<lparr>type_nodes := (t, \<lparr>node_name = name, node_parent = parent\<rparr>) # type_nodes w\<rparr>))"

text \<open>
  Modelled from the spec: \<^verbatim>\<open>flutter_local_db_plugin_get_type\<close> is the expansion of
  \<^verbatim>\<open>G_DEFINE_TYPE\<close>, which is missing. The spec calls it a type-registration hook
  that returns an opaque type identifier, stable and non-null across repeated calls
  within a process. The hook registers the type on the first call, when its static
  variable still holds 0, keeps the identifier in the static variable, and returns the
  static variable ever after.
\<close>

definition flutter_local_db_plugin_get_type ::
  "('g, 'c, 'h, 'z) process_scheme \<Rightarrow> GType \<times> ('g, 'c, 'h, 'z) process_scheme" where
  "flutter_local_db_plugin_get_type w =
     (if static_g_define_type_id w = G_TYPE_INVALID
      then (let (t, w') = g_type_register_static_simple g_object_get_type ''FlutterLocalDbPlugin'' w
            in (t, w'\<lparr>static_g_define_type_id := t\<rparr>))
      else (static_g_define_type_id w, w))"

text \<open>The identifiers that \<open>n\<close> calls of the hook in a row return, and the state they leave.\<close>

fun get_type_calls ::
  "nat \<Rightarrow> ('g, 'c, 'h, 'z) process_scheme \<Rightarrow> GType list \<times> ('g, 'c, 'h, 'z) process_scheme" where
  "get_type_calls 0 w = ([], w)"
| "get_type_calls (Suc n) w =
     (let (t, w1) = flutter_local_db_plugin_get_type w;
          (ts, w2) = get_type_calls n w1
      in (t # ts, w2))"

text \<open>
  Modelled from the spec: the allocator of the host is missing. It returns a non-null
  address above every address that holds an instance.
\<close>

definition fresh_pointer :: "(pointer \<times> 'a) list \<Rightarrow> pointer" where
  "fresh_pointer cells = Suc (Max (set (NULL # map fst cells)))"

text \<open>
  Modelled from the spec: the file has no constructor; the host builds the plugin object
  with \<^verbatim>\<open>g_object_new\<close> on the type of the hook, and \<^verbatim>\<open>g_object_new\<close> is
  missing. The spec says the instance is created by the host framework and carries the
  base-type header only. The object system takes a fresh address, stores an instance
  whose header the base type has initialised (\<open>g_object_init\<close>, a parameter, given the
  type), and runs the instance initialiser of the file on it. The class structure, which
  the object system builds once with the class initialiser of the file, is not part of
  the heap modelled here.
\<close>

definition g_object_new ::
  "(GType \<Rightarrow> 'g) \<Rightarrow> ('g, 'c, 'h, 'z) process_scheme \<Rightarrow> error + (pointer \<times> ('g, 'c, 'h, 'z) process_scheme)" where
  "g_object_new g_object_init w =
     (let (t, w1) = flutter_local_db_plugin_get_type w;
          self = fresh_pointer (instances w1);
          w2 = w1\<lparr>instances := (self, \<lparr>parent_instance = g_object_init t\<rparr>) # instances w1\<rparr>
      in case flutter_local_db_plugin_init self w2 of
           Inl e \<Rightarrow> Inl e
         | Inr w3 \<Rightarrow> Inr (self, w3))"

subsection \<open>Concrete processes\<close>

text \<open>A process at start, and the same process holding one mock registrar at address 1
  that has recorded no call.\<close>

definition process_start :: "(GType, string, unit) process" where
  "process_start =
     \<lparr>static_g_define_type_id = G_TYPE_INVALID, type_nodes = [], instances = [],
      registrars = Map.empty, channels = Map.empty\<rparr>"

definition mock_process :: "(GType, string, unit) process" where
  "mock_process = process_start\<lparr>registrars := [1 \<mapsto> []]\<rparr>"

text \<open>The process at start holding one instance at address 1, with header 81.\<close>

definition process_with_instance :: "(GType, string, unit) process" where
  "process_with_instance = process_start\<lparr>instances := [(1, \<lparr>parent_instance = 81\<rparr>)]\<rparr>"

text \<open>The process after the type has been registered as number 81 and one instance has
  been built at address 1, its header being the number of its type.\<close>

definition process_after_construction :: "(GType, string, unit) process" where
  "process_after_construction =
     process_with_instance
       \<lparr>static_g_define_type_id := 81,
        type_nodes := [(81, \<lparr>node_name = ''FlutterLocalDbPlugin'', node_parent = g_object_get_type\<rparr>)]\<rparr>"

section \<open>The registration function\<close>

text \<open>
  C1. For every valid registrar handle (the address of a registrar object of the
  process), the registration call returns normally, in the state it was called in, and
  the registrar is as it was: the calls recorded on it are the calls recorded before. For
  a mock registrar that has recorded nothing, the recorded list is empty after the call.
\<close>

theorem register_with_registrar_frame:
  assumes "registrars w registrar = Some calls"
  shows "returns (flutter_local_db_plugin_register_with_registrar registrar w)
           (\<lambda>w'. w' = w \<and> registrars w' registrar = Some calls)"
  using assms by (simp add: returns_def flutter_local_db_plugin_register_with_registrar_def)

theorem register_with_registrar_frame_witness:
  "registrars mock_process 1 = Some [] \<and>
   returns (flutter_local_db_plugin_register_with_registrar 1 mock_process)
     (\<lambda>w'. w' = mock_process \<and> registrars w' 1 = Some [])"
proof -
  have valid: "registrars mock_process 1 = Some []"
    by (simp add: mock_process_def process_start_def)
  from register_with_registrar_frame [OF valid] valid show ?thesis
    by simp
qed

text \<open>
  C2. The registration call cannot fail: for every registrar handle and every state it
  returns normally, and no error is its result.
\<close>

theorem register_with_registrar_never_fails:
  "(\<exists>w'. flutter_local_db_plugin_register_with_registrar registrar w = Inr w') \<and>
   (\<forall>e. flutter_local_db_plugin_register_with_registrar registrar w \<noteq> Inl e)"
  by (simp add: flutter_local_db_plugin_register_with_registrar_def)

text \<open>
  C3. The registration call installs no handler and creates no channel: it returns, and
  in the state it returns the channels and their handlers are those of the state before,
  so no channel exists that did not exist before the call.
\<close>

theorem register_with_registrar_no_channel:
  "returns (flutter_local_db_plugin_register_with_registrar registrar w)
     (\<lambda>w'. channels w' = channels w \<and> dom (channels w') - dom (channels w) = {})"
  by (simp add: returns_def flutter_local_db_plugin_register_with_registrar_def)

text \<open>
  C8. The registration call is total over all handles: nothing is assumed of the handle,
  which may be \<open>NULL\<close> or the address of no registrar; the call returns normally, leaves
  the state as it was (it stores nothing), and its result is the same for any two handles.
\<close>

theorem register_with_registrar_any_handle:
  "flutter_local_db_plugin_register_with_registrar registrar w = Inr w \<and>
   flutter_local_db_plugin_register_with_registrar NULL w = Inr w \<and>
   flutter_local_db_plugin_register_with_registrar registrar w =
     flutter_local_db_plugin_register_with_registrar registrar' w"
  by (simp add: flutter_local_db_plugin_register_with_registrar_def)

subsection \<open>Repeated calls\<close>

lemma register_times_returns: "register_times n registrar w = Inr w"
  by (induction n) (simp_all add: flutter_local_db_plugin_register_with_registrar_def)

text \<open>
  C9. The registration call is idempotent: for every handle and every \<open>n \<ge> 1\<close>, calling
  it \<open>n\<close> times in a row gives the result of calling it once.
\<close>

theorem register_with_registrar_idempotent:
  assumes "1 \<le> n"
  shows "register_times n registrar w = flutter_local_db_plugin_register_with_registrar registrar w"
  by (simp add: register_times_returns flutter_local_db_plugin_register_with_registrar_def)

theorem register_with_registrar_idempotent_witness:
  "(1::nat) \<le> 3 \<and>
   register_times 3 1 mock_process = flutter_local_db_plugin_register_with_registrar 1 mock_process"
proof -
  have three: "(1::nat) \<le> 3" by simp
  from register_with_registrar_idempotent [OF three] three show ?thesis
    by simp
qed

text \<open>
  C5. The registration state machine has exactly two states, unregistered and
  registered. From unregistered, the call to register leads to registered
  unconditionally: for every handle and every state of the process the step returns, in
  state registered (and with the process as it was). It is irreversible: no step leaves
  registered. No other transition is possible: a step that returns starts in
  unregistered and ends in registered.
\<close>

theorem registration_state_machine:
  "(UNIV :: registration set) = {Unregistered, Registered} \<and> Unregistered \<noteq> Registered \<and>
   registration_step registrar (Unregistered, w) = Some (Inr (Registered, w)) \<and>
   registration_step registrar (Registered, w) = None \<and>
   (registration_step registrar' (p, v) = Some (Inr (q, v'))
      \<longrightarrow> p = Unregistered \<and> q = Registered)"
proof (intro conjI impI)
  show "(UNIV :: registration set) = {Unregistered, Registered}"
  proof -
    have "x \<in> {Unregistered, Registered}" for x :: registration
      by (cases x) simp_all
    then show ?thesis
      by blast
  qed
  show "Unregistered \<noteq> Registered"
    by simp
  show "registration_step registrar (Unregistered, w) = Some (Inr (Registered, w))"
    by (simp add: flutter_local_db_plugin_register_with_registrar_def)
  show "registration_step registrar (Registered, w) = None"
    by simp
next
  assume step: "registration_step registrar' (p, v) = Some (Inr (q, v'))"
  then show "p = Unregistered"
    by (cases p) simp_all
  with step show "q = Registered"
    by (simp add: flutter_local_db_plugin_register_with_registrar_def)
qed

theorem registration_state_machine_witness:
  "registration_step 1 (Unregistered, mock_process) = Some (Inr (Registered, mock_process)) \<and>
   registration_step 1 (Registered, mock_process) = None \<and>
   (UNIV :: registration set) = {Unregistered, Registered} \<and> Unregistered \<noteq> Registered"
proof -
  have step: "registration_step 1 (Unregistered, mock_process) = Some (Inr (Registered, mock_process))"
    by (simp add: flutter_local_db_plugin_register_with_registrar_def)
  from registration_state_machine
    [of 1 mock_process 1 Unregistered mock_process Registered mock_process] step
  show ?thesis
    by blast
qed

section \<open>The plugin object\<close>

text \<open>
  C6. The plugin object carries no data of its own: an instance is its base-type header
  and nothing more, and the three functions of the file return with the instances of
  the process, their number and their contents, as they were.
\<close>

theorem plugin_instance_header_only:
  "(p :: 'g FlutterLocalDbPlugin) = \<lparr>parent_instance = parent_instance p\<rparr> \<and>
   returns (flutter_local_db_plugin_class_init klass w) (\<lambda>w'. instances w' = instances w) \<and>
   returns (flutter_local_db_plugin_init self w) (\<lambda>w'. instances w' = instances w) \<and>
   returns (flutter_local_db_plugin_register_with_registrar registrar w)
     (\<lambda>w'. instances w' = instances w)"
  by (simp add: returns_def flutter_local_db_plugin_class_init_def
      flutter_local_db_plugin_init_def flutter_local_db_plugin_register_with_registrar_def)

text \<open>
  C10. The class initialiser and the instance initialiser are no-ops: each returns the
  state it was given. So an instance whose header the base type has just initialised is,
  after the instance initialiser of the plugin has run on it, that header and nothing
  else: the state of a bare base object.
\<close>

theorem plugin_init_is_base_init:
  assumes "map_of (instances w) self = Some \<lparr>parent_instance = header\<rparr>"
  shows "flutter_local_db_plugin_class_init klass w = Inr w \<and>
         flutter_local_db_plugin_init self w = Inr w \<and>
         returns (flutter_local_db_plugin_init self w)
           (\<lambda>w'. map_of (instances w') self = Some \<lparr>parent_instance = header\<rparr>)"
  using assms
  by (simp add: returns_def flutter_local_db_plugin_class_init_def flutter_local_db_plugin_init_def)

theorem plugin_init_is_base_init_witness:
  "map_of (instances process_with_instance) 1 = Some \<lparr>parent_instance = 81\<rparr> \<and>
   flutter_local_db_plugin_class_init 7 process_with_instance = Inr process_with_instance \<and>
   flutter_local_db_plugin_init 1 process_with_instance = Inr process_with_instance \<and>
   returns (flutter_local_db_plugin_init 1 process_with_instance)
     (\<lambda>w'. map_of (instances w') 1 = Some \<lparr>parent_instance = 81\<rparr>)"
proof -
  have fresh: "map_of (instances process_with_instance) 1 = Some \<lparr>parent_instance = 81\<rparr>"
    by (simp add: process_with_instance_def process_start_def)
  from plugin_init_is_base_init [OF fresh, of 7] fresh show ?thesis
    by blast
qed

section \<open>The type hook\<close>

lemma fresh_type_id_nonnull: "fresh_type_id nodes \<noteq> G_TYPE_INVALID"
  by (simp add: fresh_type_id_def G_TYPE_INVALID_def)

lemma get_type_registered:
  "static_g_define_type_id w \<noteq> G_TYPE_INVALID \<Longrightarrow>
   flutter_local_db_plugin_get_type w = (static_g_define_type_id w, w)"
  by (simp add: flutter_local_db_plugin_get_type_def)

lemma get_type_nonnull: "fst (flutter_local_db_plugin_get_type w) \<noteq> G_TYPE_INVALID"
  by (simp add: flutter_local_db_plugin_get_type_def g_type_register_static_simple_def
      Let_def fresh_type_id_nonnull)

lemma get_type_static:
  "static_g_define_type_id (snd (flutter_local_db_plugin_get_type w)) =
   fst (flutter_local_db_plugin_get_type w)"
  by (simp add: flutter_local_db_plugin_get_type_def g_type_register_static_simple_def Let_def)

lemma get_type_instances:
  "instances (snd (flutter_local_db_plugin_get_type w)) = instances w"
  by (simp add: flutter_local_db_plugin_get_type_def g_type_register_static_simple_def Let_def)

lemma get_type_calls_registered:
  "static_g_define_type_id w \<noteq> G_TYPE_INVALID \<Longrightarrow>
   get_type_calls n w = (replicate n (static_g_define_type_id w), w)"
  by (induction n) (simp_all add: get_type_registered)

lemma get_type_calls_first:
  "fst (get_type_calls n w) = replicate n (fst (flutter_local_db_plugin_get_type w))"
proof (cases n)
  case 0
  then show ?thesis by simp
next
  case (Suc m)
  obtain t w1 where first: "flutter_local_db_plugin_get_type w = (t, w1)"
    by (cases "flutter_local_db_plugin_get_type w")
  from get_type_static [of w] get_type_nonnull [of w] first
  have cell: "static_g_define_type_id w1 = t" and nonnull: "t \<noteq> G_TYPE_INVALID"
    by simp_all
  from cell nonnull have "get_type_calls m w1 = (replicate m t, w1)"
    using get_type_calls_registered [of w1 m] by simp
  with Suc first show ?thesis by simp
qed

text \<open>
  C4. The type hook is stable and non-null within a process: from every state, a call
  returns an identifier other than \<^verbatim>\<open>G_TYPE_INVALID\<close>; \<open>n\<close> calls in a row all
  return the identifier of the first; and so does a call in any later state of the
  process in which the static variable of the hook still holds what the first call left
  in it (only the hook writes that variable).
\<close>

theorem get_type_stable_nonnull:
  "fst (flutter_local_db_plugin_get_type w) \<noteq> G_TYPE_INVALID \<and>
   fst (get_type_calls n w) = replicate n (fst (flutter_local_db_plugin_get_type w)) \<and>
   (static_g_define_type_id w2 = static_g_define_type_id (snd (flutter_local_db_plugin_get_type w))
      \<longrightarrow> fst (flutter_local_db_plugin_get_type w2) = fst (flutter_local_db_plugin_get_type w))"
proof (intro conjI impI)
  show "fst (flutter_local_db_plugin_get_type w) \<noteq> G_TYPE_INVALID"
    by (rule get_type_nonnull)
  show "fst (get_type_calls n w) = replicate n (fst (flutter_local_db_plugin_get_type w))"
    by (rule get_type_calls_first)
  assume "static_g_define_type_id w2 = static_g_define_type_id (snd (flutter_local_db_plugin_get_type w))"
  then have cell: "static_g_define_type_id w2 = fst (flutter_local_db_plugin_get_type w)"
    by (simp add: get_type_static)
  with get_type_nonnull [of w] have "static_g_define_type_id w2 \<noteq> G_TYPE_INVALID"
    by simp
  then show "fst (flutter_local_db_plugin_get_type w2) = fst (flutter_local_db_plugin_get_type w)"
    by (simp add: get_type_registered cell)
qed

theorem get_type_stable_nonnull_witness:
  "fst (flutter_local_db_plugin_get_type process_start) \<noteq> G_TYPE_INVALID \<and>
   fst (get_type_calls 3 process_start) = [81, 81, 81] \<and>
   static_g_define_type_id process_after_construction =
     static_g_define_type_id (snd (flutter_local_db_plugin_get_type process_start)) \<and>
   fst (flutter_local_db_plugin_get_type process_after_construction) = 81"
proof -
  have first: "fst (flutter_local_db_plugin_get_type process_start) = 81"
    by (simp add: flutter_local_db_plugin_get_type_def g_type_register_static_simple_def
        process_start_def fresh_type_id_def G_TYPE_INVALID_def g_object_get_type_def)
  have cell: "static_g_define_type_id process_after_construction =
      static_g_define_type_id (snd (flutter_local_db_plugin_get_type process_start))"
    by (simp add: flutter_local_db_plugin_get_type_def g_type_register_static_simple_def
        process_after_construction_def process_with_instance_def process_start_def
        fresh_type_id_def G_TYPE_INVALID_def g_object_get_type_def)
  from get_type_stable_nonnull [of process_start 3 process_after_construction] cell first
  show ?thesis
    by (simp add: numeral_3_eq_3)
qed

section \<open>Construction\<close>

lemma fresh_pointer_new: "fresh_pointer cells \<notin> fst ` set cells"
proof
  assume "fresh_pointer cells \<in> fst ` set cells"
  then have "fresh_pointer cells \<le> Max (set (NULL # map fst cells))"
    by (intro Max_ge) simp_all
  then show False
    by (simp add: fresh_pointer_def)
qed

lemma fresh_pointer_nonnull: "fresh_pointer cells \<noteq> NULL"
  by (simp add: fresh_pointer_def NULL_def)

lemma g_object_new_result:
  "g_object_new g_object_init w =
     Inr (fresh_pointer (instances w),
          (snd (flutter_local_db_plugin_get_type w))
            \<lparr>instances :=
               (fresh_pointer (instances w),
                \<lparr>parent_instance = g_object_init (fst (flutter_local_db_plugin_get_type w))\<rparr>)
               # instances w\<rparr>)"
  by (simp add: g_object_new_def flutter_local_db_plugin_init_def get_type_instances
      split_beta Let_def)

text \<open>
  C7. Repeated construction gives independent instances: when the process already holds
  an instance at address \<open>a\<close>, constructing another one returns, at a non-null address
  \<open>b\<close> other than \<open>a\<close>; the instance at \<open>a\<close> is as it was, the instance at \<open>b\<close> is
  the header the base type gave it, and the instance initialiser run on either of the
  two leaves the other as it was.
\<close>

theorem constructed_instances_independent:
  assumes "map_of (instances w) a = Some obj"
  shows "returns (g_object_new g_object_init w)
           (\<lambda>(b, w').
              b \<noteq> NULL \<and> b \<noteq> a \<and>
              map_of (instances w') a = Some obj \<and>
              map_of (instances w') b =
                Some \<lparr>parent_instance = g_object_init (fst (flutter_local_db_plugin_get_type w))\<rparr> \<and>
              returns (flutter_local_db_plugin_init b w')
                (\<lambda>w''. map_of (instances w'') a = Some obj) \<and>
              returns (flutter_local_db_plugin_init a w')
                (\<lambda>w''. map_of (instances w'') b = map_of (instances w') b))"
proof -
  from assms have "a \<in> fst ` set (instances w)"
    by (metis domI dom_map_of_conv_image_fst)
  with fresh_pointer_new [of "instances w"] have "fresh_pointer (instances w) \<noteq> a"
    by auto
  with assms show ?thesis
    by (simp add: g_object_new_result returns_def flutter_local_db_plugin_init_def
        fresh_pointer_nonnull)
qed

theorem constructed_instances_independent_witness:
  "map_of (instances process_after_construction) 1 = Some \<lparr>parent_instance = 81\<rparr> \<and>
   returns (g_object_new (\<lambda>t. t + 1000) process_after_construction)
     (\<lambda>(b, w').
        b = 2 \<and>
        map_of (instances w') 1 = Some \<lparr>parent_instance = 81\<rparr> \<and>
        map_of (instances w') b = Some \<lparr>parent_instance = 1081\<rparr> \<and>
        returns (flutter_local_db_plugin_init b w')
          (\<lambda>w''. map_of (instances w'') 1 = Some \<lparr>parent_instance = 81\<rparr>) \<and>
        returns (flutter_local_db_plugin_init 1 w')
          (\<lambda>w''. map_of (instances w'') b = map_of (instances w') b))"
proof -
  have first: "map_of (instances process_after_construction) 1 = Some \<lparr>parent_instance = 81\<rparr>"
    by (simp add: process_after_construction_def process_with_instance_def process_start_def)
  have second: "fresh_pointer (instances process_after_construction) = 2"
    by (simp add: fresh_pointer_def NULL_def process_after_construction_def
        process_with_instance_def process_start_def)
  have type: "fst (flutter_local_db_plugin_get_type process_after_construction) = 81"
    by (simp add: flutter_local_db_plugin_get_type_def G_TYPE_INVALID_def
        process_after_construction_def process_with_instance_def process_start_def)
  from constructed_instances_independent [OF first, of "\<lambda>t. t + 1000"] first second type
  show ?thesis
    by (simp add: g_object_new_result returns_def)
qed

end
